theory Spec2Isabelle
  imports Main
begin

section \<open>Exceptions and responses\<close>

text \<open>
  The handlers of \<^verbatim>\<open>main.py\<close> either return a dictionary or raise.  What a call into the
  module \<^verbatim>\<open>sqlite3\<close> raises (\<^verbatim>\<open>sqlite3.IntegrityError\<close> for a violated constraint,
  \<^verbatim>\<open>sqlite3.OperationalError\<close> for a failure of the store itself, \<^verbatim>\<open>OverflowError\<close> for a
  bound integer that does not fit the 64 bits of an SQLite INTEGER) is kept apart from what
  the hashing library raises (\<^verbatim>\<open>ValueError\<close>) and from what a handler raises on purpose
  (\<^verbatim>\<open>HTTPException(status_code, detail)\<close>).  Texts are byte strings in UTF-8, so the accented
  letters of the messages are written as their two bytes; a Python text that has no UTF-8
  encoding is therefore not a value of this model.
\<close>

datatype sqlite_error = IntegrityError string | OperationalError string | OverflowError string

datatype excecao = Sqlite sqlite_error | ValueError string | HTTPException nat string

text \<open>\<^verbatim>\<open>str(e)\<close> of an exception raised by \<^verbatim>\<open>sqlite3\<close> is its message.\<close>

fun str_erro :: "sqlite_error \<Rightarrow> string" where
  "str_erro (IntegrityError m) = m"
| "str_erro (OperationalError m) = m"
| "str_erro (OverflowError m) = m"

text \<open>A returned dictionary, in the order of its keys; \<open>VNone\<close> is Python's \<^verbatim>\<open>None\<close>.\<close>

datatype valor = VNone | VInt int | VStr string | VList "string list"

type_synonym resposta = "(string \<times> valor) list"

section \<open>The store\<close>

text \<open>
  Modelled from the spec: \<^verbatim>\<open>database.py\<close> (\<^verbatim>\<open>criar_tabelas\<close>) is not among the sources, so the
  two tables are the ones of the specification's data model.  Table \<^verbatim>\<open>idealizadores\<close> has an
  auto-assigned integer primary key, the text columns, the password hash, and \<^verbatim>\<open>email\<close>
  unique and required.  Table \<^verbatim>\<open>habilidades\<close> has an auto-assigned key, the owner's id
  (no foreign key is enforced) and the skill name.  A text column may hold NULL, which is
  \<open>None\<close>.  A table is the list of its rows in storage order, which is the order of
  insertion.
\<close>

record tb_idealizadores =
  ident :: int
  nome :: "string option"
  telefone :: "string option"
  email :: "string option"
  senha :: string
  github :: "string option"
  linkedin :: "string option"
  funcao :: "string option"
  pais :: "string option"
  cidade :: "string option"
  sobre_mim :: "string option"

record tb_habilidades =
  ident :: int
  idealizador_id :: int
  nome :: string

record banco =
  idealizadores :: "tb_idealizadores list"
  habilidades :: "tb_habilidades list"

text \<open>
  A connection of \<^verbatim>\<open>sqlite3.connect("banco.db")\<close>: \<open>disco\<close> is the committed content of the
  file, \<open>visao\<close> the content this connection sees (with its uncommitted changes),
  \<open>aberta\<close> whether it has not been closed yet, \<open>executados\<close> the number of statements
  passed to \<^verbatim>\<open>cursor.execute\<close>.  \<open>falhas\<close> is the plan of the store's own failures: one
  entry for each later call of \<^verbatim>\<open>execute\<close> or \<^verbatim>\<open>commit\<close>, \<open>Some m\<close> when the store fails
  with \<^verbatim>\<open>OperationalError(m)\<close> while that call runs its statement; an exhausted plan means
  no failure.
\<close>

record conexao =
  disco :: banco
  visao :: banco
  aberta :: bool
  executados :: nat
  falhas :: "string option list"

definition connect :: "string option list \<Rightarrow> banco \<Rightarrow> conexao" where
  "connect fs b = \<lparr>disco = b, visao = b, aberta = True, executados = 0, falhas = fs\<rparr>"

text \<open>
  A Python integer can be bound to a parameter of a statement only if it fits a signed
  64-bit integer.
\<close>

definition cabe :: "int \<Rightarrow> bool" where
  "cabe v = (- (2 ^ 63) \<le> v \<and> v < 2 ^ 63)"

text \<open>
  \<^verbatim>\<open>cursor.execute(sql, parametros)\<close>, with \<open>inteiros\<close> the integers among the parameters.
  The parameters are bound before the statement runs: an integer that does not fit raises
  \<^verbatim>\<open>OverflowError\<close> and nothing else happens.  Then a failure of the store leaves the data
  as they were; otherwise the statement runs on what the connection sees and either raises
  (a statement that raises changes nothing) or yields the new content and its result rows.
\<close>

definition execute ::
  "(banco \<Rightarrow> sqlite_error + banco \<times> 'a) \<Rightarrow> int list \<Rightarrow> conexao \<Rightarrow>
   (sqlite_error + 'a) \<times> conexao" where
  "execute stmt inteiros c =
     (let c1 = c\<lparr>executados := Suc (executados c), falhas := tl (falhas c)\<rparr>
      in if \<not> list_all cabe inteiros
         then (Inl (OverflowError ''Python int too large to convert to SQLite INTEGER''), c1)
         else case falhas c of
                Some m # fs \<Rightarrow> (Inl (OperationalError m), c1)
              | _ \<Rightarrow> (case stmt (visao c) of
                        Inl e \<Rightarrow> (Inl e, c1)
                      | Inr (b, x) \<Rightarrow> (Inr x, c1\<lparr>visao := b\<rparr>)))"

definition commit :: "conexao \<Rightarrow> (sqlite_error + unit) \<times> conexao" where
  "commit c =
     (let c1 = c\<lparr>falhas := tl (falhas c)\<rparr>
      in case falhas c of
           Some m # fs \<Rightarrow> (Inl (OperationalError m), c1)
         | _ \<Rightarrow> (Inr (), c1\<lparr>disco := visao c\<rparr>))"

definition rollback :: "conexao \<Rightarrow> conexao" where
  "rollback c = c\<lparr>visao := disco c\<rparr>"

text \<open>Closing a connection discards what it has not committed.\<close>

definition close :: "conexao \<Rightarrow> conexao" where
  "close c = c\<lparr>visao := disco c, aberta := False\<rparr>"

definition fetchone :: "'a list \<Rightarrow> 'a option" where
  "fetchone linhas = (case linhas of [] \<Rightarrow> None | l # _ \<Rightarrow> Some l)"

section \<open>The SQL statements\<close>

text \<open>
  An auto-assigned key is 1 in an empty table and otherwise one more than the largest key
  of the table.  When the largest key is the largest 64-bit integer the engine draws an
  unused positive key at random; which one is not determined by the store, and the least
  one stands for it here (one of the keys \<open>1, \<dots>, n + 1\<close> is unused in a table of
  \<open>n\<close> rows).
\<close>

definition chave_livre :: "int list \<Rightarrow> int" where
  "chave_livre ids =
     (case filter (\<lambda>k. k \<notin> set ids) (map int [1 ..< length ids + 2]) of
        [] \<Rightarrow> int (length ids) + 1
      | k # _ \<Rightarrow> k)"

definition novo_id :: "int list \<Rightarrow> int" where
  "novo_id ids =
     (case ids of
        [] \<Rightarrow> 1
      | k # ks \<Rightarrow>
          (let maior = fold max ks k
           in if maior < 2 ^ 63 - 1 then maior + 1 else chave_livre ids))"

text \<open>
  \<^verbatim>\<open>INSERT INTO idealizadores (nome, telefone, email, senha, github, linkedin, funcao, pais,
  cidade, sobre_mim) VALUES (?, ?, ?, ?, ?, ?, ?, ?, ?, ?)\<close>
\<close>

definition insert_idealizadores ::
  "string option \<Rightarrow> string option \<Rightarrow> string option \<Rightarrow> string \<Rightarrow> string option \<Rightarrow>
   string option \<Rightarrow> string option \<Rightarrow> string option \<Rightarrow> string option \<Rightarrow> string option \<Rightarrow>
   banco \<Rightarrow> sqlite_error + banco \<times> unit" where
  "insert_idealizadores v_nome v_telefone v_email v_senha v_github v_linkedin v_funcao v_pais
       v_cidade v_sobre_mim b =
     (if v_email = None
      then Inl (IntegrityError ''NOT NULL constraint failed: idealizadores.email'')
      else if v_email \<in> set (map tb_idealizadores.email (idealizadores b))
      then Inl (IntegrityError ''UNIQUE constraint failed: idealizadores.email'')
      else Inr (b\<lparr>idealizadores := idealizadores b @
                  [\<lparr>tb_idealizadores.ident = novo_id (map tb_idealizadores.ident (idealizadores b)),
                    nome = v_nome, telefone = v_telefone, email = v_email, senha = v_senha,
                    github = v_github, linkedin = v_linkedin, funcao = v_funcao, pais = v_pais,
                    cidade = v_cidade, sobre_mim = v_sobre_mim\<rparr>]\<rparr>, ()))"

section \<open>Registration\<close>

text \<open>
  Modelled from the spec: \<^verbatim>\<open>models.py\<close> is not among the sources; the request body of
  \<^verbatim>\<open>cadastrar\<close> has the ten inputs of the specification's registration, the name, the email
  and the password required and the others optional.
\<close>

record Idealizador =
  nome :: string
  telefone :: "string option"
  email :: string
  senha :: string
  github :: "string option"
  linkedin :: "string option"
  funcao :: "string option"
  pais :: "string option"
  cidade :: "string option"
  sobre_mim :: "string option"

text \<open>
  \<^verbatim>\<open>cadastrar\<close>.  The library \<^verbatim>\<open>bcrypt\<close> is a parameter: \<open>hashpw\<close> is
  \<^verbatim>\<open>bcrypt.hashpw\<close> on the encoded password, which returns the hash or raises, and \<open>sal\<close>
  what \<^verbatim>\<open>bcrypt.gensalt()\<close> returned for this request.  The password is hashed after the
  connection is opened and before the \<^verbatim>\<open>try\<close>: an exception of the hashing leaves the
  handler there, with the connection open.  The \<^verbatim>\<open>try\<close> block is the INSERT followed by
  the commit; only an \<^verbatim>\<open>IntegrityError\<close> is turned into the 400 response, and \<^verbatim>\<open>finally\<close>
  closes the connection on every path out of the \<^verbatim>\<open>try\<close>.
\<close>

definition cadastrar ::
  "(string \<Rightarrow> string \<Rightarrow> excecao + string) \<Rightarrow> string \<Rightarrow> string option list \<Rightarrow> banco \<Rightarrow>
   Idealizador \<Rightarrow> (excecao + resposta) \<times> conexao" where
  "cadastrar hashpw sal fs b idealizador =
     (let conexao = connect fs b
      in case hashpw (Idealizador.senha idealizador) sal of
           Inl e \<Rightarrow> (Inl e, conexao)
         | Inr senha_criptografada \<Rightarrow>
             (let (r, conexao) =
                    (case execute (insert_idealizadores
                            (Some (Idealizador.nome idealizador))
                            (Idealizador.telefone idealizador)
                            (Some (Idealizador.email idealizador))
                            senha_criptografada
                            (Idealizador.github idealizador)
                            (Idealizador.linkedin idealizador)
                            (Idealizador.funcao idealizador)
                            (Idealizador.pais idealizador)
                            (Idealizador.cidade idealizador)
                            (Idealizador.sobre_mim idealizador)) [] conexao of
                       (Inl e, conexao) \<Rightarrow> (Inl e, conexao)
                     | (Inr _, conexao) \<Rightarrow> commit conexao)
              in case r of
                   Inl (IntegrityError m) \<Rightarrow>
                     (Inl (HTTPException 400
                        (''E-mail j'' @ [CHR 0xC3, CHR 0xA1] @ '' cadastrado.'')),
                      close conexao)
                 | Inl e \<Rightarrow> (Inl (Sqlite e), close conexao)
                 | Inr _ \<Rightarrow>
                     (Inr [(''mensagem'', VStr ''Idealizador cadastrado com sucesso!'')],
                      close conexao)))"

section \<open>Login\<close>


record Login =
  email :: string
  senha :: string



section \<open>Profile read and skill listing\<close>

text \<open>
  \<^verbatim>\<open>SELECT id, nome, telefone, email, github, linkedin, funcao, pais, cidade, sobre_mim
  FROM idealizadores WHERE id = ?\<close>: ten columns, the password hash is not one of them.
\<close>

type_synonym linha_perfil =
  "int \<times> string option \<times> string option \<times> string option \<times> string option \<times> string option \<times>
   string option \<times> string option \<times> string option \<times> string option"

definition select_perfil :: "int \<Rightarrow> banco \<Rightarrow> sqlite_error + banco \<times> linha_perfil list" where
  "select_perfil v_id b =
     Inr (b, map (\<lambda>r. (tb_idealizadores.ident r, tb_idealizadores.nome r,
                       tb_idealizadores.telefone r, tb_idealizadores.email r,
                       tb_idealizadores.github r, tb_idealizadores.linkedin r,
                       tb_idealizadores.funcao r, tb_idealizadores.pais r,
                       tb_idealizadores.cidade r, tb_idealizadores.sobre_mim r))
               (filter (\<lambda>r. tb_idealizadores.ident r = v_id) (idealizadores b)))"

text \<open>\<^verbatim>\<open>SELECT nome FROM habilidades WHERE idealizador_id = ?\<close>\<close>

definition select_habilidades :: "int \<Rightarrow> banco \<Rightarrow> sqlite_error + banco \<times> string list" where
  "select_habilidades v_id b =
     Inr (b, map tb_habilidades.nome
               (filter (\<lambda>h. idealizador_id h = v_id) (habilidades b)))"

text \<open>\<^verbatim>\<open>x or ""\<close> for a text \<^verbatim>\<open>x\<close> that may be \<^verbatim>\<open>None\<close>: the empty text is falsy as well.\<close>

definition ou_vazio :: "string option \<Rightarrow> string" where
  "ou_vazio x = (case x of None \<Rightarrow> [] | Some s \<Rightarrow> if s = [] then [] else s)"

definition obter_perfil ::
  "string option list \<Rightarrow> banco \<Rightarrow> int \<Rightarrow> (excecao + resposta) \<times> conexao" where
  "obter_perfil fs b v_id =
     (let conexao = connect fs b
      in case execute (select_perfil v_id) [v_id] conexao of
           (Inl e, conexao) \<Rightarrow> (Inl (Sqlite e), conexao)
         | (Inr linhas, conexao) \<Rightarrow>
             (case fetchone linhas of
                None \<Rightarrow>
                  (Inl (HTTPException 404 (''Perfil n'' @ [CHR 0xC3, CHR 0xA3] @ ''o encontrado'')),
                   close conexao)
              | Some (r0, r1, r2, r3, r4, r5, r6, r7, r8, r9) \<Rightarrow>
                  (let perfil =
                         [(''id'', VInt r0),
                          (''nome'', VStr (ou_vazio r1)),
                          (''telefone'', VStr (ou_vazio r2)),
                          (''email'', VStr (ou_vazio r3)),
                          (''github'', VStr (ou_vazio r4)),
                          (''linkedin'', VStr (ou_vazio r5)),
                          (''funcao'', VStr (ou_vazio r6)),
                          (''pais'', VStr (ou_vazio r7)),
                          (''cidade'', VStr (ou_vazio r8)),
                          (''sobre_mim'', VStr (ou_vazio r9))]
                   in case execute (select_habilidades v_id) [v_id] conexao of
                        (Inl e, conexao) \<Rightarrow> (Inl (Sqlite e), conexao)
                      | (Inr hs, conexao) \<Rightarrow>
                          (Inr (perfil @ [(''habilidades'', VList hs)]), close conexao))))"

definition listar_habilidades ::
  "string option list \<Rightarrow> banco \<Rightarrow> int \<Rightarrow> (excecao + resposta) \<times> conexao" where
  "listar_habilidades fs b v_id =
     (let conexao = connect fs b
      in case execute (select_habilidades v_id) [v_id] conexao of
           (Inl e, conexao) \<Rightarrow> (Inl (Sqlite e), conexao)
         | (Inr hs, conexao) \<Rightarrow> (Inr [(''habilidades'', VList hs)], close conexao))"

section \<open>Profile update\<close>

record AtualizacaoPerfil =
  nome :: "string option"
  telefone :: "string option"
  github :: "string option"
  linkedin :: "string option"
  funcao :: "string option"
  pais :: "string option"
  cidade :: "string option"
  sobre_mim :: "string option"
  email :: "string option"

text \<open>The keys of \<^verbatim>\<open>dados.dict()\<close>, which are the columns an update can name.\<close>

datatype campo = Nome | Telefone | Github | Linkedin | Funcao | Pais | Cidade | Sobre_mim | Email

definition dict_items :: "AtualizacaoPerfil \<Rightarrow> (campo \<times> string option) list" where
  "dict_items dados =
     [(Nome, AtualizacaoPerfil.nome dados),
      (Telefone, AtualizacaoPerfil.telefone dados),
      (Github, AtualizacaoPerfil.github dados),
      (Linkedin, AtualizacaoPerfil.linkedin dados),
      (Funcao, AtualizacaoPerfil.funcao dados),
      (Pais, AtualizacaoPerfil.pais dados),
      (Cidade, AtualizacaoPerfil.cidade dados),
      (Sobre_mim, AtualizacaoPerfil.sobre_mim dados),
      (Email, AtualizacaoPerfil.email dados)]"

text \<open>
  The loop that fills \<^verbatim>\<open>campos\<close> and \<^verbatim>\<open>valores\<close>: the two lists grow together, so they are
  kept as one list of pairs, the column of \<^verbatim>\<open>"campo = ?"\<close> with the value bound to it.
\<close>

fun enviados :: "(campo \<times> string option) list \<Rightarrow> (campo \<times> string) list" where
  "enviados [] = []"
| "enviados ((campo, None) # resto) = enviados resto"
| "enviados ((campo, Some valor) # resto) = (campo, valor) # enviados resto"

fun atribui :: "campo \<Rightarrow> string \<Rightarrow> tb_idealizadores \<Rightarrow> tb_idealizadores" where
  "atribui Nome v r = r\<lparr>tb_idealizadores.nome := Some v\<rparr>"
| "atribui Telefone v r = r\<lparr>tb_idealizadores.telefone := Some v\<rparr>"
| "atribui Github v r = r\<lparr>tb_idealizadores.github := Some v\<rparr>"
| "atribui Linkedin v r = r\<lparr>tb_idealizadores.linkedin := Some v\<rparr>"
| "atribui Funcao v r = r\<lparr>tb_idealizadores.funcao := Some v\<rparr>"
| "atribui Pais v r = r\<lparr>tb_idealizadores.pais := Some v\<rparr>"
| "atribui Cidade v r = r\<lparr>tb_idealizadores.cidade := Some v\<rparr>"
| "atribui Sobre_mim v r = r\<lparr>tb_idealizadores.sobre_mim := Some v\<rparr>"
| "atribui Email v r = r\<lparr>tb_idealizadores.email := Some v\<rparr>"

text \<open>
  \<^verbatim>\<open>UPDATE idealizadores SET campo = ?, ... WHERE id = ?\<close>.  The key is unique, so the rows
  an updated row can collide with are those of other keys: the statement raises when it
  assigns an email that such a row holds, and then changes nothing.
\<close>

definition update_idealizadores ::
  "(campo \<times> string) list \<Rightarrow> int \<Rightarrow> banco \<Rightarrow> sqlite_error + banco \<times> unit" where
  "update_idealizadores atribs v_id b =
     (if (case map_of atribs Email of
            None \<Rightarrow> False
          | Some e \<Rightarrow>
              v_id \<in> set (map tb_idealizadores.ident (idealizadores b)) \<and>
              Some e \<in> set (map tb_idealizadores.email
                               (filter (\<lambda>r. tb_idealizadores.ident r \<noteq> v_id) (idealizadores b))))
      then Inl (IntegrityError ''UNIQUE constraint failed: idealizadores.email'')
      else Inr (b\<lparr>idealizadores :=
                    map (\<lambda>r. if tb_idealizadores.ident r = v_id
                             then fold (\<lambda>(c, v). atribui c v) atribs r else r)
                        (idealizadores b)\<rparr>, ()))"

text \<open>
  \<^verbatim>\<open>atualizar_perfil\<close>.  No line of it closes the connection before the 400 is raised, and
  no \<^verbatim>\<open>try\<close> surrounds the statement and the commit.
\<close>

definition atualizar_perfil ::
  "string option list \<Rightarrow> banco \<Rightarrow> int \<Rightarrow> AtualizacaoPerfil \<Rightarrow> (excecao + resposta) \<times> conexao" where
  "atualizar_perfil fs b v_id dados =
     (let conexao = connect fs b;
          campos = enviados (dict_items dados)
      in if campos = []
         then (Inl (HTTPException 400 ''Nenhum dado enviado para atualizar.''), conexao)
         else case execute (update_idealizadores campos v_id) [v_id] conexao of
                (Inl e, conexao) \<Rightarrow> (Inl (Sqlite e), conexao)
              | (Inr _, conexao) \<Rightarrow>
                  (case commit conexao of
                     (Inl e, conexao) \<Rightarrow> (Inl (Sqlite e), conexao)
                   | (Inr _, conexao) \<Rightarrow>
                       (Inr [(''mensagem'', VStr ''Perfil atualizado com sucesso!'')],
                        close conexao)))"

section \<open>Skill replace\<close>

text \<open>\<^verbatim>\<open>DELETE FROM habilidades WHERE idealizador_id = ?\<close>\<close>

definition delete_habilidades :: "int \<Rightarrow> banco \<Rightarrow> sqlite_error + banco \<times> unit" where
  "delete_habilidades v_id b =
     Inr (b\<lparr>habilidades := filter (\<lambda>h. idealizador_id h \<noteq> v_id) (habilidades b)\<rparr>, ())"

text \<open>\<^verbatim>\<open>INSERT INTO habilidades (idealizador_id, nome) VALUES (?, ?)\<close>\<close>

definition insert_habilidades :: "int \<Rightarrow> string \<Rightarrow> banco \<Rightarrow> sqlite_error + banco \<times> unit" where
  "insert_habilidades v_id v_nome b =
     Inr (b\<lparr>habilidades := habilidades b @
               [\<lparr>tb_habilidades.ident = novo_id (map tb_habilidades.ident (habilidades b)),
                 idealizador_id = v_id, nome = v_nome\<rparr>]\<rparr>, ())"

text \<open>The loop \<^verbatim>\<open>for nome in habilidades\<close>: an exception of an INSERT ends it.\<close>

fun insere_todas :: "int \<Rightarrow> string list \<Rightarrow> conexao \<Rightarrow> (sqlite_error + unit) \<times> conexao" where
  "insere_todas v_id [] conexao = (Inr (), conexao)"
| "insere_todas v_id (nome' # resto) conexao =
     (case execute (insert_habilidades v_id nome') [v_id] conexao of
        (Inl e, conexao) \<Rightarrow> (Inl e, conexao)
      | (Inr _, conexao) \<Rightarrow> insere_todas v_id resto conexao)"

definition salvar_habilidades ::
  "string option list \<Rightarrow> banco \<Rightarrow> int \<Rightarrow> string list \<Rightarrow> (excecao + resposta) \<times> conexao" where
  "salvar_habilidades fs b v_id nomes =
     (let conexao = connect fs b
      in case execute (delete_habilidades v_id) [v_id] conexao of
           (Inl e, conexao) \<Rightarrow> (Inl (Sqlite e), conexao)
         | (Inr _, conexao) \<Rightarrow>
             (case insere_todas v_id nomes conexao of
                (Inl e, conexao) \<Rightarrow> (Inl (Sqlite e), conexao)
              | (Inr _, conexao) \<Rightarrow>
                  (case commit conexao of
                     (Inl e, conexao) \<Rightarrow> (Inl (Sqlite e), conexao)
                   | (Inr _, conexao) \<Rightarrow>
                       (Inr [(''mensagem'', VStr ''Habilidades atualizadas com sucesso!'')],
                        close conexao))))"

section \<open>Profile delete\<close>

text \<open>\<^verbatim>\<open>SELECT id FROM idealizadores WHERE id = ?\<close>\<close>

definition select_id :: "int \<Rightarrow> banco \<Rightarrow> sqlite_error + banco \<times> int list" where
  "select_id v_id b =
     Inr (b, map tb_idealizadores.ident
               (filter (\<lambda>r. tb_idealizadores.ident r = v_id) (idealizadores b)))"

text \<open>\<^verbatim>\<open>DELETE FROM idealizadores WHERE id = ?\<close>\<close>

definition delete_idealizadores :: "int \<Rightarrow> banco \<Rightarrow> sqlite_error + banco \<times> unit" where
  "delete_idealizadores v_id b =
     Inr (b\<lparr>idealizadores := filter (\<lambda>r. tb_idealizadores.ident r \<noteq> v_id) (idealizadores b)\<rparr>, ())"

text \<open>
  \<^verbatim>\<open>excluir_perfil\<close>.  The existence check stands before the \<^verbatim>\<open>try\<close>; inside it are the two
  deletes and the commit, \<^verbatim>\<open>except Exception\<close> rolls back and raises the 500 with the text
  of the exception, and \<^verbatim>\<open>finally\<close> closes the connection.
\<close>

definition excluir_perfil ::
  "string option list \<Rightarrow> banco \<Rightarrow> int \<Rightarrow> (excecao + resposta) \<times> conexao" where
  "excluir_perfil fs b v_id =
     (let conexao = connect fs b
      in case execute (select_id v_id) [v_id] conexao of
           (Inl e, conexao) \<Rightarrow> (Inl (Sqlite e), conexao)
         | (Inr linhas, conexao) \<Rightarrow>
             (case fetchone linhas of
                None \<Rightarrow>
                  (Inl (HTTPException 404
                     (''Usu'' @ [CHR 0xC3, CHR 0xA1] @ ''rio n'' @ [CHR 0xC3, CHR 0xA3] @
                      ''o encontrado.'')), close conexao)
              | Some _ \<Rightarrow>
                  (let (r, conexao) =
                         (case execute (delete_habilidades v_id) [v_id] conexao of
                            (Inl e, conexao) \<Rightarrow> (Inl e, conexao)
                          | (Inr _, conexao) \<Rightarrow>
                              (case execute (delete_idealizadores v_id) [v_id] conexao of
                                 (Inl e, conexao) \<Rightarrow> (Inl e, conexao)
                               | (Inr _, conexao) \<Rightarrow> commit conexao))
                   in case r of
                        Inl e \<Rightarrow>
                          (Inl (HTTPException 500 (''Erro ao excluir perfil: '' @ str_erro e)),
                           close (rollback conexao))
                      | Inr _ \<Rightarrow>
                          (Inr [(''mensagem'',
                                 VStr (''Perfil e habilidades exclu'' @ [CHR 0xC3, CHR 0xAD] @
                                       ''dos com sucesso!''))], close conexao))))"

section \<open>What the operations are meant to leave behind\<close>




text \<open>The update request in which no field is present.\<close>

definition nenhum_campo :: AtualizacaoPerfil where
  "nenhum_campo =
     \<lparr>AtualizacaoPerfil.nome = None, telefone = None, github = None, linkedin = None,
      funcao = None, pais = None, cidade = None, sobre_mim = None, email = None\<rparr>"

section \<open>Example data\<close>

text \<open>
  A store with two users and three skills, and requests against it, for the concrete
  instances below.  \<open>hashpw_exemplo\<close> and \<open>checkpw_exemplo\<close> stand in for the two
  functions of the hashing library there; like the library in its recent versions they
  raise \<^verbatim>\<open>ValueError\<close> for a password of more than 72 bytes, which \<open>senha_longa\<close> is.  \<open>id_grande\<close> is
  the least integer above the 64-bit range and \<open>id_pequeno\<close> the greatest one below it.
\<close>

definition banco_exemplo :: banco where
  "banco_exemplo =
     \<lparr>idealizadores =
        [\<lparr>tb_idealizadores.ident = 1, nome = Some ''Ana'', telefone = None,
          email = Some ''a@x.com'', senha = ''s1:pw1'', github = None, linkedin = None,
          funcao = None, pais = None, cidade = Some ''Recife'', sobre_mim = None\<rparr>,
         \<lparr>tb_idealizadores.ident = 2, nome = Some ''Bia'', telefone = None,
          email = Some ''b@x.com'', senha = ''s2:pw2'', github = None, linkedin = None,
          funcao = Some ''dev'', pais = None, cidade = None, sobre_mim = None\<rparr>],
      habilidades =
        [\<lparr>tb_habilidades.ident = 1, idealizador_id = 1, nome = ''a''\<rparr>,
         \<lparr>tb_habilidades.ident = 2, idealizador_id = 2, nome = ''z''\<rparr>,
         \<lparr>tb_habilidades.ident = 3, idealizador_id = 1, nome = ''b''\<rparr>]\<rparr>"

definition senha_recusada :: excecao where
  "senha_recusada = ValueError
       ''password cannot be longer than 72 bytes, truncate manually if necessary (e.g. my_password[:72])''"

definition hashpw_exemplo :: "string \<Rightarrow> string \<Rightarrow> excecao + string" where
  "hashpw_exemplo p s = (if 72 < length p then Inl senha_recusada else Inr (s @ '':'' @ p))"


definition senha_longa :: string where
  "senha_longa = replicate 73 CHR ''a''"

definition idealizador_exemplo :: Idealizador where
  "idealizador_exemplo =
     \<lparr>Idealizador.nome = ''Caio'', telefone = None, email = ''a@x.com'', senha = ''pw3'',
      github = None, linkedin = None, funcao = None, pais = None, cidade = None,
      sobre_mim = None\<rparr>"

definition id_grande :: int where
  "id_grande = 9223372036854775808"

definition id_pequeno :: int where
  "id_pequeno = - 9223372036854775809"

section \<open>Facts about the store\<close>

lemma fetchone_filter:
  "fetchone (map f (filter P xs)) = map_option f (find P xs)"
  by (induction xs) (simp_all add: fetchone_def)

lemma find_None_map: "(find (\<lambda>r. f r = k) xs = None) = (k \<notin> set (map f xs))"
  by (induction xs) auto

lemma fetchone_None_map:
  "(fetchone (map f (filter (\<lambda>r. g r = k) xs)) = None) = (k \<notin> set (map g xs))"
  by (simp add: fetchone_filter find_None_map)


lemma execute_estouro:
  "\<not> cabe v \<Longrightarrow>
   execute stmt [v] c =
     (Inl (OverflowError ''Python int too large to convert to SQLite INTEGER''),
      c\<lparr>executados := Suc (executados c), falhas := tl (falhas c)\<rparr>)"
  by (simp add: execute_def)


lemma nao_cabem: "\<not> cabe id_grande" "\<not> cabe id_pequeno"
  by (simp_all add: cabe_def id_grande_def id_pequeno_def)

section \<open>Registration with an email already present\<close>

text \<open>
  Against claim C2 as it is stated: the store has a user with the email of the request,
  yet for a password that the hashing refuses the handler raises the exception of the
  hashing, not the 400 response, and the connection it had opened stays open.
\<close>

theorem cadastrar_hash_levanta:
  "Some (Idealizador.email idealizador_exemplo)
     \<in> set (map tb_idealizadores.email (idealizadores banco_exemplo))
   \<and> fst (cadastrar hashpw_exemplo ''s3'' [] banco_exemplo
            (idealizador_exemplo\<lparr>Idealizador.senha := senha_longa\<rparr>)) =
       Inl (ValueError
       ''password cannot be longer than 72 bytes, truncate manually if necessary (e.g. my_password[:72])'')
   \<and> aberta (snd (cadastrar hashpw_exemplo ''s3'' [] banco_exemplo
                    (idealizador_exemplo\<lparr>Idealizador.senha := senha_longa\<rparr>)))"
  by (simp add: cadastrar_def hashpw_exemplo_def senha_longa_def senha_recusada_def
        idealizador_exemplo_def banco_exemplo_def connect_def)

text \<open>
  Claim C2, amended.  When a row of the store already has the email of the request and the
  hashing of the password returns a hash, \<^verbatim>\<open>cadastrar\<close> raises the 400 response whose detail
  says that the email is already registered, the one the handler reserves for the
  uniqueness violation (under any plan of store failures only a failure of the INSERT
  itself takes its place), the committed content of the store is exactly what it was, so
  the existing row is untouched, and the connection is closed.  Moreover, whatever the
  store holds, whatever the hashing does and whatever fails, a registration that raises
  leaves the committed content unchanged.
\<close>

theorem cadastrar_email_duplicado:
  assumes "Some (Idealizador.email novo) \<in> set (map tb_idealizadores.email (idealizadores b))"
    and "hashpw (Idealizador.senha novo) sal = Inr h"
  shows "fst (cadastrar hashpw sal fs b novo) =
           (case fs of
              Some m # _ \<Rightarrow> Inl (Sqlite (OperationalError m))
            | _ \<Rightarrow> Inl (HTTPException 400 (''E-mail j'' @ [CHR 0xC3, CHR 0xA1] @ '' cadastrado.'')))
         \<and> disco (snd (cadastrar hashpw sal fs b novo)) = b
         \<and> \<not> aberta (snd (cadastrar hashpw sal fs b novo))
         \<and> (isl (fst (cadastrar hashpw' sal' fs' b' novo')) \<longrightarrow>
              disco (snd (cadastrar hashpw' sal' fs' b' novo')) = b')"
  using assms
  by (auto simp: cadastrar_def connect_def execute_def commit_def close_def
        insert_idealizadores_def Let_def
      split: list.splits option.splits sum.splits sqlite_error.splits prod.splits)

theorem cadastrar_email_duplicado_witness:
  "Some (Idealizador.email idealizador_exemplo)
     \<in> set (map tb_idealizadores.email (idealizadores banco_exemplo))
   \<and> hashpw_exemplo (Idealizador.senha idealizador_exemplo) ''s3'' = Inr ''s3:pw3''
   \<and> fst (cadastrar hashpw_exemplo ''s3'' [] banco_exemplo idealizador_exemplo) =
       Inl (HTTPException 400 (''E-mail j'' @ [CHR 0xC3, CHR 0xA1] @ '' cadastrado.''))
   \<and> disco (snd (cadastrar hashpw_exemplo ''s3'' [] banco_exemplo idealizador_exemplo)) =
       banco_exemplo"
proof -
  have h: "Some (Idealizador.email idealizador_exemplo)
             \<in> set (map tb_idealizadores.email (idealizadores banco_exemplo))"
    by (simp add: idealizador_exemplo_def banco_exemplo_def)
  have g: "hashpw_exemplo (Idealizador.senha idealizador_exemplo) ''s3'' = Inr ''s3:pw3''"
    by (simp add: hashpw_exemplo_def idealizador_exemplo_def)
  from cadastrar_email_duplicado [where hashpw = hashpw_exemplo and sal = "''s3''"
      and novo = idealizador_exemplo and b = banco_exemplo and fs = "[]", OF h g] h g
  show ?thesis by simp
qed

section \<open>Login\<close>




section \<open>Profile read\<close>

lemma ou_vazio_texto: "ou_vazio x = (case x of None \<Rightarrow> [] | Some s \<Rightarrow> s)"
  by (simp add: ou_vazio_def split: option.splits)

lemma obter_perfil_ausente:
  "cabe v_id \<Longrightarrow> v_id \<notin> set (map tb_idealizadores.ident (idealizadores b)) \<Longrightarrow>
   obter_perfil [] b v_id =
     (Inl (HTTPException 404 (''Perfil n'' @ [CHR 0xC3, CHR 0xA3] @ ''o encontrado'')),
      \<lparr>disco = b, visao = b, aberta = False, executados = 1, falhas = []\<rparr>)"
  using find_None_map [of tb_idealizadores.ident v_id "idealizadores b"]
  by (simp add: obter_perfil_def connect_def execute_def select_perfil_def close_def
        fetchone_filter)

lemma obter_perfil_presente:
  "cabe v_id \<Longrightarrow>
   find (\<lambda>r. tb_idealizadores.ident r = v_id) (idealizadores b) = Some u \<Longrightarrow>
   obter_perfil [] b v_id =
     (Inr [(''id'', VInt (tb_idealizadores.ident u)),
           (''nome'', VStr (ou_vazio (tb_idealizadores.nome u))),
           (''telefone'', VStr (ou_vazio (tb_idealizadores.telefone u))),
           (''email'', VStr (ou_vazio (tb_idealizadores.email u))),
           (''github'', VStr (ou_vazio (tb_idealizadores.github u))),
           (''linkedin'', VStr (ou_vazio (tb_idealizadores.linkedin u))),
           (''funcao'', VStr (ou_vazio (tb_idealizadores.funcao u))),
           (''pais'', VStr (ou_vazio (tb_idealizadores.pais u))),
           (''cidade'', VStr (ou_vazio (tb_idealizadores.cidade u))),
           (''sobre_mim'', VStr (ou_vazio (tb_idealizadores.sobre_mim u))),
           (''habilidades'',
            VList (map tb_habilidades.nome
                     (filter (\<lambda>h. idealizador_id h = v_id) (habilidades b))))],
      \<lparr>disco = b, visao = b, aberta = False, executados = 2, falhas = []\<rparr>)"
  by (simp add: obter_perfil_def connect_def execute_def select_perfil_def
        select_habilidades_def close_def fetchone_filter)

text \<open>
  Against claim C7 as it is stated: no row has the id just above the 64-bit range, yet the
  profile read of that id raises the overflow of the binding instead of the 404 response,
  and leaves its connection open.
\<close>

theorem obter_perfil_id_grande:
  "id_grande \<notin> set (map tb_idealizadores.ident (idealizadores banco_exemplo))
   \<and> fst (obter_perfil [] banco_exemplo id_grande) =
       Inl (Sqlite (OverflowError ''Python int too large to convert to SQLite INTEGER''))
   \<and> aberta (snd (obter_perfil [] banco_exemplo id_grande))"
  by (simp add: obter_perfil_def connect_def execute_estouro nao_cabem)
     (simp add: banco_exemplo_def id_grande_def)

text \<open>
  Claim C7, amended.  With no failure of the store and for an id within the 64-bit range,
  \<^verbatim>\<open>obter_perfil\<close> raises the 404 response when no row has the id; when there is one, \<open>u\<close>
  being the row the SELECT yields, it returns the id and the nine text columns of \<open>u\<close>,
  each text being the empty string where the column is NULL, followed by the names of the
  skill rows of that id in storage order (the empty list when there are none).  No key of
  a returned profile is the password hash and no value of it is \<^verbatim>\<open>None\<close>.  The store is not
  changed and the connection is closed.
\<close>

theorem obter_perfil_resultados:
  assumes "cabe v_id"
  shows "(v_id \<notin> set (map tb_idealizadores.ident (idealizadores b)) \<longrightarrow>
      fst (obter_perfil [] b v_id) =
        Inl (HTTPException 404 (''Perfil n'' @ [CHR 0xC3, CHR 0xA3] @ ''o encontrado'')))
   \<and> (find (\<lambda>r. tb_idealizadores.ident r = v_id) (idealizadores b) = Some u \<longrightarrow>
        (let texto = (\<lambda>x. case x of None \<Rightarrow> [] | Some s \<Rightarrow> s)
         in fst (obter_perfil [] b v_id) =
              Inr [(''id'', VInt (tb_idealizadores.ident u)),
                   (''nome'', VStr (texto (tb_idealizadores.nome u))),
                   (''telefone'', VStr (texto (tb_idealizadores.telefone u))),
                   (''email'', VStr (texto (tb_idealizadores.email u))),
                   (''github'', VStr (texto (tb_idealizadores.github u))),
                   (''linkedin'', VStr (texto (tb_idealizadores.linkedin u))),
                   (''funcao'', VStr (texto (tb_idealizadores.funcao u))),
                   (''pais'', VStr (texto (tb_idealizadores.pais u))),
                   (''cidade'', VStr (texto (tb_idealizadores.cidade u))),
                   (''sobre_mim'', VStr (texto (tb_idealizadores.sobre_mim u))),
                   (''habilidades'',
                    VList (map tb_habilidades.nome
                             (filter (\<lambda>h. idealizador_id h = v_id) (habilidades b))))]))
   \<and> (fst (obter_perfil [] b v_id) = Inr perfil \<longrightarrow>
        ''senha'' \<notin> set (map fst perfil) \<and> VNone \<notin> set (map snd perfil))
   \<and> disco (snd (obter_perfil [] b v_id)) = b
   \<and> \<not> aberta (snd (obter_perfil [] b v_id))"
proof (cases "find (\<lambda>r. tb_idealizadores.ident r = v_id) (idealizadores b)")
  case None
  then have "v_id \<notin> set (map tb_idealizadores.ident (idealizadores b))"
    using find_None_map [of tb_idealizadores.ident v_id "idealizadores b"] by simp
  from obter_perfil_ausente [OF assms this] None show ?thesis by simp
next
  case (Some w)
  then have "v_id \<in> set (map tb_idealizadores.ident (idealizadores b))"
    using find_None_map [of tb_idealizadores.ident v_id "idealizadores b"] by auto
  with obter_perfil_presente [OF assms Some] Some show ?thesis
    by (auto simp: ou_vazio_texto)
qed

theorem obter_perfil_resultados_witness:
  "cabe 3 \<and> cabe 1
   \<and> fst (obter_perfil [] banco_exemplo 3) =
       Inl (HTTPException 404 (''Perfil n'' @ [CHR 0xC3, CHR 0xA3] @ ''o encontrado''))
   \<and> fst (obter_perfil [] banco_exemplo 1) =
       Inr [(''id'', VInt 1), (''nome'', VStr ''Ana''), (''telefone'', VStr []),
            (''email'', VStr ''a@x.com''), (''github'', VStr []), (''linkedin'', VStr []),
            (''funcao'', VStr []), (''pais'', VStr []), (''cidade'', VStr ''Recife''),
            (''sobre_mim'', VStr []), (''habilidades'', VList [''a'', ''b''])]"
proof -
  have c: "cabe 3" "cabe 1" by (simp_all add: cabe_def)
  from
    obter_perfil_resultados [OF c(1), where b = banco_exemplo]
    obter_perfil_resultados [OF c(2), where b = banco_exemplo
      and u = "hd (idealizadores banco_exemplo)"]
    c
  show ?thesis by (simp add: banco_exemplo_def)
qed

section \<open>Profile update\<close>









text \<open>
  Claim C8.  For the request with no field present, whatever the id, the store and the plan
  of failures, \<^verbatim>\<open>atualizar_perfil\<close> raises the 400 response, has passed no statement to the
  store (none is counted and no entry of the plan is used), and leaves the committed
  content as it was, so that a profile read afterwards is the profile read before.
\<close>

theorem atualizar_perfil_sem_campos:
  "fst (atualizar_perfil fs b v_id nenhum_campo) =
     Inl (HTTPException 400 ''Nenhum dado enviado para atualizar.'')
   \<and> executados (snd (atualizar_perfil fs b v_id nenhum_campo)) = 0
   \<and> falhas (snd (atualizar_perfil fs b v_id nenhum_campo)) = fs
   \<and> disco (snd (atualizar_perfil fs b v_id nenhum_campo)) = b
   \<and> obter_perfil fs' (disco (snd (atualizar_perfil fs b v_id nenhum_campo))) v_id' =
       obter_perfil fs' b v_id'"
  by (simp add: atualizar_perfil_def nenhum_campo_def dict_items_def connect_def)




section \<open>Release of the connection\<close>

text \<open>
  Claim C9 fails on two exit paths.  After the 400 response of \<^verbatim>\<open>atualizar_perfil\<close> for a
  request with no field present the connection is still open, and so it is after
  \<^verbatim>\<open>salvar_habilidades\<close> when the store fails at the first INSERT; \<^verbatim>\<open>obter_perfil\<close> and
  \<^verbatim>\<open>excluir_perfil\<close> close it before they raise their 404, and \<^verbatim>\<open>cadastrar\<close> and
  \<^verbatim>\<open>excluir_perfil\<close> close it in a \<^verbatim>\<open>finally\<close>.
\<close>

theorem conexao_nao_liberada:
  "fst (atualizar_perfil [] banco_exemplo 1 nenhum_campo) =
     Inl (HTTPException 400 ''Nenhum dado enviado para atualizar.'')
   \<and> aberta (snd (atualizar_perfil [] banco_exemplo 1 nenhum_campo))
   \<and> fst (salvar_habilidades [None, Some ''disk I/O error''] banco_exemplo 1 [''c'']) =
       Inl (Sqlite (OperationalError ''disk I/O error''))
   \<and> aberta (snd (salvar_habilidades [None, Some ''disk I/O error''] banco_exemplo 1 [''c'']))
   \<and> \<not> aberta (snd (obter_perfil [] banco_exemplo 3))
   \<and> \<not> aberta (snd (excluir_perfil [] banco_exemplo 3))"
  by (simp add: atualizar_perfil_def nenhum_campo_def dict_items_def connect_def
        salvar_habilidades_def execute_def delete_habilidades_def insert_habilidades_def
        obter_perfil_def excluir_perfil_def select_perfil_def select_id_def fetchone_def
        close_def cabe_def banco_exemplo_def)

section \<open>Skill replace\<close>

lemma listar_habilidades_sem_falha:
  "cabe v_id \<Longrightarrow>
   listar_habilidades [] b v_id =
     (Inr [(''habilidades'',
            VList (map tb_habilidades.nome
                     (filter (\<lambda>h. idealizador_id h = v_id) (habilidades b))))],
      \<lparr>disco = b, visao = b, aberta = False, executados = 1, falhas = []\<rparr>)"
  by (simp add: listar_habilidades_def connect_def execute_def select_habilidades_def close_def)












section \<open>Profile delete\<close>

lemma excluir_perfil_ausente:
  "cabe v_id \<Longrightarrow> v_id \<notin> set (map tb_idealizadores.ident (idealizadores b)) \<Longrightarrow>
   excluir_perfil (None # fs) b v_id =
     (Inl (HTTPException 404
        (''Usu'' @ [CHR 0xC3, CHR 0xA1] @ ''rio n'' @ [CHR 0xC3, CHR 0xA3] @ ''o encontrado.'')),
      \<lparr>disco = b, visao = b, aberta = False, executados = 1, falhas = fs\<rparr>)"
  using fetchone_None_map [of tb_idealizadores.ident tb_idealizadores.ident v_id "idealizadores b"]
  by (simp add: excluir_perfil_def connect_def execute_def select_id_def close_def)

text \<open>
  When the row exists: \<open>f1\<close>, \<open>f2\<close> and \<open>f3\<close> say whether the DELETE of the skills, the
  DELETE of the user and the commit fail, and the first failure among them decides.
\<close>

lemma excluir_perfil_presente:
  assumes "v_id \<in> set (map tb_idealizadores.ident (idealizadores b))"
    and cabe: "cabe v_id"
  shows "fst (excluir_perfil [None, f1, f2, f3] b v_id) =
           (case (case f1 of Some m \<Rightarrow> Some m
                  | None \<Rightarrow> (case f2 of Some m \<Rightarrow> Some m | None \<Rightarrow> f3)) of
              Some m \<Rightarrow> Inl (HTTPException 500 (''Erro ao excluir perfil: '' @ m))
            | None \<Rightarrow> Inr [(''mensagem'',
                            VStr (''Perfil e habilidades exclu'' @ [CHR 0xC3, CHR 0xAD] @
                                  ''dos com sucesso!''))])"
    and "disco (snd (excluir_perfil [None, f1, f2, f3] b v_id)) =
           (case (case f1 of Some m \<Rightarrow> Some m
                  | None \<Rightarrow> (case f2 of Some m \<Rightarrow> Some m | None \<Rightarrow> f3)) of
              Some m \<Rightarrow> b
            | None \<Rightarrow>
                \<lparr>idealizadores =
                   filter (\<lambda>r. tb_idealizadores.ident r \<noteq> v_id) (idealizadores b),
                 habilidades = filter (\<lambda>h. idealizador_id h \<noteq> v_id) (habilidades b)\<rparr>)"
    and "\<not> aberta (snd (excluir_perfil [None, f1, f2, f3] b v_id))"
proof -
  have "fetchone (map tb_idealizadores.ident
          (filter (\<lambda>r. tb_idealizadores.ident r = v_id) (idealizadores b))) \<noteq> None"
    using assms(1)
      fetchone_None_map [of tb_idealizadores.ident tb_idealizadores.ident v_id "idealizadores b"]
    by simp
  then obtain k where k: "fetchone (map tb_idealizadores.ident
      (filter (\<lambda>r. tb_idealizadores.ident r = v_id) (idealizadores b))) = Some k"
    by blast
  note defs = excluir_perfil_def connect_def execute_def commit_def select_id_def close_def
    rollback_def delete_habilidades_def delete_idealizadores_def
  show "fst (excluir_perfil [None, f1, f2, f3] b v_id) =
           (case (case f1 of Some m \<Rightarrow> Some m
                  | None \<Rightarrow> (case f2 of Some m \<Rightarrow> Some m | None \<Rightarrow> f3)) of
              Some m \<Rightarrow> Inl (HTTPException 500 (''Erro ao excluir perfil: '' @ m))
            | None \<Rightarrow> Inr [(''mensagem'',
                            VStr (''Perfil e habilidades exclu'' @ [CHR 0xC3, CHR 0xAD] @
                                  ''dos com sucesso!''))])"
    using k cabe by (cases f1; cases f2; cases f3) (simp_all add: defs)
  show "disco (snd (excluir_perfil [None, f1, f2, f3] b v_id)) =
           (case (case f1 of Some m \<Rightarrow> Some m
                  | None \<Rightarrow> (case f2 of Some m \<Rightarrow> Some m | None \<Rightarrow> f3)) of
              Some m \<Rightarrow> b
            | None \<Rightarrow>
                \<lparr>idealizadores =
                   filter (\<lambda>r. tb_idealizadores.ident r \<noteq> v_id) (idealizadores b),
                 habilidades = filter (\<lambda>h. idealizador_id h \<noteq> v_id) (habilidades b)\<rparr>)"
    using k cabe by (cases b; cases f1; cases f2; cases f3) (simp_all add: defs)
  show "\<not> aberta (snd (excluir_perfil [None, f1, f2, f3] b v_id))"
    using k cabe by (cases f1; cases f2; cases f3) (simp_all add: defs)
qed

lemma filter_diferente_igual: "filter (\<lambda>h. g h = k) (filter (\<lambda>h. g h \<noteq> k) xs) = []"
  by (auto simp: filter_empty_conv)

text \<open>
  Against claim C3 as it is stated: no row has the id just above the 64-bit range, yet
  the profile delete of that id raises the overflow of the binding at its existence check
  instead of the 404 response, and leaves its connection open.
\<close>

theorem excluir_perfil_id_grande:
  "id_grande \<notin> set (map tb_idealizadores.ident (idealizadores banco_exemplo))
   \<and> fst (excluir_perfil [] banco_exemplo id_grande) =
       Inl (Sqlite (OverflowError ''Python int too large to convert to SQLite INTEGER''))
   \<and> aberta (snd (excluir_perfil [] banco_exemplo id_grande))"
  by (simp add: excluir_perfil_def connect_def execute_estouro nao_cabem)
     (simp add: banco_exemplo_def id_grande_def)

text \<open>
  Claim C3, amended.  For an id within the 64-bit range, the SELECT of the existence check
  not failing, \<^verbatim>\<open>excluir_perfil\<close> raises
  the 404 response and leaves the committed content as it was when no row has the id.
  When a row has it: if the DELETE of the skills, the DELETE of the user or the commit
  fails with message \<open>m\<close> (the first of them that fails), it raises the 500 response whose
  detail ends with \<open>m\<close> and the committed content is what it was before the call; if none
  fails, it returns its confirmation, the committed content is the former one without the
  skill rows and without the user rows of that id, a skill listing for that id on it
  returns the empty list and a profile read for that id raises the 404 response.  On all
  these paths the connection is closed.
\<close>

theorem excluir_perfil_tudo_ou_nada:
  assumes "cabe v_id"
  shows "(let r = excluir_perfil [None, f1, f2, f3] b v_id
    in (v_id \<notin> set (map tb_idealizadores.ident (idealizadores b)) \<longrightarrow>
          fst r = Inl (HTTPException 404
                    (''Usu'' @ [CHR 0xC3, CHR 0xA1] @ ''rio n'' @ [CHR 0xC3, CHR 0xA3] @
                     ''o encontrado.''))
          \<and> disco (snd r) = b)
     \<and> (v_id \<in> set (map tb_idealizadores.ident (idealizadores b)) \<longrightarrow>
          (\<forall>m. f1 = Some m \<or> f1 = None \<and> f2 = Some m \<or> f1 = None \<and> f2 = None \<and> f3 = Some m \<longrightarrow>
               fst r = Inl (HTTPException 500 (''Erro ao excluir perfil: '' @ m))
               \<and> disco (snd r) = b)
          \<and> (f1 = None \<and> f2 = None \<and> f3 = None \<longrightarrow>
               fst r = Inr [(''mensagem'',
                             VStr (''Perfil e habilidades exclu'' @ [CHR 0xC3, CHR 0xAD] @
                                   ''dos com sucesso!''))]
               \<and> disco (snd r) =
                   \<lparr>idealizadores =
                      filter (\<lambda>u. tb_idealizadores.ident u \<noteq> v_id) (idealizadores b),
                    habilidades = filter (\<lambda>h. idealizador_id h \<noteq> v_id) (habilidades b)\<rparr>
               \<and> fst (listar_habilidades [] (disco (snd r)) v_id) =
                   Inr [(''habilidades'', VList [])]
               \<and> fst (obter_perfil [] (disco (snd r)) v_id) =
                   Inl (HTTPException 404
                     (''Perfil n'' @ [CHR 0xC3, CHR 0xA3] @ ''o encontrado''))))
     \<and> \<not> aberta (snd r))"
proof (cases "v_id \<in> set (map tb_idealizadores.ident (idealizadores b))")
  case False
  from excluir_perfil_ausente [OF assms False, of "[f1, f2, f3]"] False
  show ?thesis by (simp add: Let_def)
next
  case True
  note p = excluir_perfil_presente [OF True assms, of f1 f2 f3]
  have ausente: "v_id \<notin> set (map tb_idealizadores.ident
      (idealizadores \<lparr>idealizadores =
          filter (\<lambda>u. tb_idealizadores.ident u \<noteq> v_id) (idealizadores b),
        habilidades = filter (\<lambda>h. idealizador_id h \<noteq> v_id) (habilidades b)\<rparr>))"
    by auto
  have falha: "\<forall>m. f1 = Some m \<or> f1 = None \<and> f2 = Some m \<or> f1 = None \<and> f2 = None \<and> f3 = Some m \<longrightarrow>
      fst (excluir_perfil [None, f1, f2, f3] b v_id) =
        Inl (HTTPException 500 (''Erro ao excluir perfil: '' @ m))
      \<and> disco (snd (excluir_perfil [None, f1, f2, f3] b v_id)) = b"
    using p(1,2) by auto
  have sucesso: "f1 = None \<and> f2 = None \<and> f3 = None \<longrightarrow>
      fst (excluir_perfil [None, f1, f2, f3] b v_id) =
        Inr [(''mensagem'',
              VStr (''Perfil e habilidades exclu'' @ [CHR 0xC3, CHR 0xAD] @ ''dos com sucesso!''))]
      \<and> disco (snd (excluir_perfil [None, f1, f2, f3] b v_id)) =
          \<lparr>idealizadores =
             filter (\<lambda>u. tb_idealizadores.ident u \<noteq> v_id) (idealizadores b),
           habilidades = filter (\<lambda>h. idealizador_id h \<noteq> v_id) (habilidades b)\<rparr>
      \<and> fst (listar_habilidades [] (disco (snd (excluir_perfil [None, f1, f2, f3] b v_id))) v_id) =
          Inr [(''habilidades'', VList [])]
      \<and> fst (obter_perfil [] (disco (snd (excluir_perfil [None, f1, f2, f3] b v_id))) v_id) =
          Inl (HTTPException 404 (''Perfil n'' @ [CHR 0xC3, CHR 0xA3] @ ''o encontrado''))"
  proof (intro impI)
    assume a: "f1 = None \<and> f2 = None \<and> f3 = None"
    from a p(1) have r1: "fst (excluir_perfil [None, f1, f2, f3] b v_id) =
        Inr [(''mensagem'',
              VStr (''Perfil e habilidades exclu'' @ [CHR 0xC3, CHR 0xAD] @ ''dos com sucesso!''))]"
      by simp
    from a p(2) have r2: "disco (snd (excluir_perfil [None, f1, f2, f3] b v_id)) =
        \<lparr>idealizadores =
           filter (\<lambda>u. tb_idealizadores.ident u \<noteq> v_id) (idealizadores b),
         habilidades = filter (\<lambda>h. idealizador_id h \<noteq> v_id) (habilidades b)\<rparr>"
      by simp
    show "fst (excluir_perfil [None, f1, f2, f3] b v_id) =
        Inr [(''mensagem'',
              VStr (''Perfil e habilidades exclu'' @ [CHR 0xC3, CHR 0xAD] @ ''dos com sucesso!''))]
      \<and> disco (snd (excluir_perfil [None, f1, f2, f3] b v_id)) =
          \<lparr>idealizadores =
             filter (\<lambda>u. tb_idealizadores.ident u \<noteq> v_id) (idealizadores b),
           habilidades = filter (\<lambda>h. idealizador_id h \<noteq> v_id) (habilidades b)\<rparr>
      \<and> fst (listar_habilidades [] (disco (snd (excluir_perfil [None, f1, f2, f3] b v_id))) v_id) =
          Inr [(''habilidades'', VList [])]
      \<and> fst (obter_perfil [] (disco (snd (excluir_perfil [None, f1, f2, f3] b v_id))) v_id) =
          Inl (HTTPException 404 (''Perfil n'' @ [CHR 0xC3, CHR 0xA3] @ ''o encontrado''))"
      unfolding r2 using r1 obter_perfil_ausente [OF assms ausente]
      by (simp add: listar_habilidades_sem_falha [OF assms] filter_diferente_igual)
  qed
  from True falha sucesso p(3) show ?thesis
    by (simp only: Let_def) blast
qed

theorem excluir_perfil_tudo_ou_nada_witness:
  "cabe 3 \<and> cabe 1
   \<and> fst (excluir_perfil [None, None, None, None] banco_exemplo 3) =
     Inl (HTTPException 404
       (''Usu'' @ [CHR 0xC3, CHR 0xA1] @ ''rio n'' @ [CHR 0xC3, CHR 0xA3] @ ''o encontrado.''))
   \<and> fst (excluir_perfil [None, None, Some ''disk I/O error'', None] banco_exemplo 1) =
       Inl (HTTPException 500 ''Erro ao excluir perfil: disk I/O error'')
   \<and> disco (snd (excluir_perfil [None, None, Some ''disk I/O error'', None] banco_exemplo 1)) =
       banco_exemplo
   \<and> disco (snd (excluir_perfil [None, None, None, None] banco_exemplo 1)) =
       \<lparr>idealizadores = [idealizadores banco_exemplo ! 1],
        habilidades = [habilidades banco_exemplo ! 1]\<rparr>
   \<and> fst (listar_habilidades []
        (disco (snd (excluir_perfil [None, None, None, None] banco_exemplo 1))) 1) =
       Inr [(''habilidades'', VList [])]"
proof -
  have a: "3 \<notin> set (map tb_idealizadores.ident (idealizadores banco_exemplo))"
    and b: "1 \<in> set (map tb_idealizadores.ident (idealizadores banco_exemplo))"
    and f: "filter (\<lambda>u. tb_idealizadores.ident u \<noteq> 1) (idealizadores banco_exemplo) =
              [idealizadores banco_exemplo ! 1]"
    and g: "filter (\<lambda>h. idealizador_id h \<noteq> 1) (habilidades banco_exemplo) =
              [habilidades banco_exemplo ! 1]"
    by (simp_all add: banco_exemplo_def)
  have c: "cabe 3" "cabe 1"
    by (simp_all add: cabe_def)
  from excluir_perfil_tudo_ou_nada [OF c(1), of None None None banco_exemplo] a
  have c1: "fst (excluir_perfil [None, None, None, None] banco_exemplo 3) =
      Inl (HTTPException 404
        (''Usu'' @ [CHR 0xC3, CHR 0xA1] @ ''rio n'' @ [CHR 0xC3, CHR 0xA3] @ ''o encontrado.''))"
    by (simp add: Let_def)
  from excluir_perfil_tudo_ou_nada [OF c(2), of None "Some ''disk I/O error''" None
      banco_exemplo] b
  have c2: "fst (excluir_perfil [None, None, Some ''disk I/O error'', None] banco_exemplo 1) =
        Inl (HTTPException 500 ''Erro ao excluir perfil: disk I/O error'')
      \<and> disco (snd (excluir_perfil [None, None, Some ''disk I/O error'', None] banco_exemplo 1)) =
        banco_exemplo"
    by (simp add: Let_def)
  from excluir_perfil_tudo_ou_nada [OF c(2), of None None None banco_exemplo] b
  have c3: "disco (snd (excluir_perfil [None, None, None, None] banco_exemplo 1)) =
        \<lparr>idealizadores = [idealizadores banco_exemplo ! 1],
         habilidades = [habilidades banco_exemplo ! 1]\<rparr>
      \<and> fst (listar_habilidades []
           (disco (snd (excluir_perfil [None, None, None, None] banco_exemplo 1))) 1) =
        Inr [(''habilidades'', VList [])]"
    by (auto simp: Let_def f g)
  from c c1 c2 c3 show ?thesis by blast
qed

end
